theory Spec2Isabelle
  imports Main "HOL-Library.Extended_Nat"
begin

section \<open>The reactive connection \<open>useWebSocket\<close>\<close>

text \<open>
  The composable \<open>useWebSocket(url, options)\<close> keeps five reactive references
  (\<open>ws\<close>, \<open>isConnected\<close>, \<open>data\<close>, \<open>error\<close>, \<open>status\<close>) and three closure variables
  (\<open>reconnectCount\<close>, \<open>reconnectTimeoutId\<close>, \<open>explicitClose\<close>).  Its functions
  \<open>connect\<close>, \<open>disconnect\<close>, \<open>send\<close> and the four callbacks it installs on every
  transport handle are embedded below as state transformers, one definition per source
  function, with the assignments in the source's order.
\<close>

subsection \<open>Values of the host language\<close>

text \<open>
  JavaScript values as far as the composable looks at them.  Numbers are IEEE doubles in
  the host; their representation is left as the type parameter \<open>'n\<close>.  An object is the
  list of its own enumerable properties in enumeration order.
\<close>

datatype 'n jsval =
    JNull
  | JBool bool
  | JNum 'n
  | JStr string
  | JArr "'n jsval list"
  | JObj "(string \<times> 'n jsval) list"

datatype jstype = T_object | T_boolean | T_number | T_string

text \<open>The \<open>typeof\<close> operator: \<open>null\<close>, arrays and objects all answer \<open>'object'\<close>.\<close>

fun typeof :: "'n jsval \<Rightarrow> jstype" where
  "typeof JNull = T_object"
| "typeof (JBool b) = T_boolean"
| "typeof (JNum n) = T_number"
| "typeof (JStr t) = T_string"
| "typeof (JArr vs) = T_object"
| "typeof (JObj kvs) = T_object"

text \<open>
  What the \<open>error\<close> reference can hold: the exception caught around the construction of
  the transport handle, or the event object the transport passed to \<open>onerror\<close>.
\<close>

datatype errval = Exception string | ErrorEvent string

subsection \<open>Status, transport handles, options\<close>

datatype Status = DISCONNECTED | CONNECTING | CONNECTED | ERROR

text \<open>\<open>WebSocket.readyState\<close>: CONNECTING = 0, OPEN = 1, CLOSING = 2, CLOSED = 3.\<close>

datatype ReadyState = RS_CONNECTING | RS_OPEN | RS_CLOSING | RS_CLOSED

text \<open>
  The call's arguments together with the three host functions the composable calls:
  the \<open>WebSocket\<close> constructor (\<open>Some e\<close>: it throws \<open>e\<close>, as it does for a malformed
  address), \<open>JSON.parse\<close> (\<open>None\<close>: it throws a SyntaxError) and \<open>JSON.stringify\<close>.
  \<open>reconnectAttempts\<close> is a number of attempts or \<open>Infinity\<close>, its default, hence \<open>enat\<close>;
  \<open>reconnectDelay\<close> is in milliseconds.
\<close>

record 'n config =
  url :: string
  autoConnect :: bool
  autoReconnect :: bool
  reconnectAttempts :: enat
  reconnectDelay :: nat
  protocol :: string
  json :: bool
  new_WebSocket :: "string \<Rightarrow> string option \<Rightarrow> errval option"
  JSON_parse :: "string \<Rightarrow> 'n jsval option"
  JSON_stringify :: "'n jsval \<Rightarrow> string"

text \<open>
  The state of one instance.  The first eight fields are the source's references and
  variables (\<open>ws\<close> holds the index of a handle in \<open>socks\<close>, or \<open>None\<close> for \<open>null\<close>).  The
  remaining fields are the environment the code acts on: the \<open>readyState\<close> of every
  handle this instance has constructed, the payloads handed to a handle's \<open>send\<close>, the
  pending timers of \<open>setTimeout\<close> as (id, delay), the next timer id (ids are positive, so
  an id is truthy), the lines given to \<open>console.warn\<close>, and the sequence of values
  assigned to \<open>status\<close> so far.
\<close>

record 'n uws =
  ws :: "nat option"
  isConnected :: bool
  data :: "'n jsval"
  error :: "errval option"
  status :: Status
  reconnectCount :: nat
  reconnectTimeoutId :: "nat option"
  explicitClose :: bool
  socks :: "ReadyState list"
  sent :: "(nat \<times> 'n jsval) list"
  timers :: "(nat \<times> nat) list"
  next_timer :: nat
  console :: "string list"
  status_log :: "Status list"

definition initial :: "'n uws" where
  "initial = \<lparr> ws = None, isConnected = False, data = JNull, error = None,
     status = DISCONNECTED, reconnectCount = 0, reconnectTimeoutId = None,
     explicitClose = False, socks = [], sent = [], timers = [], next_timer = 1,
     console = [], status_log = [] \<rparr>"

text \<open>\<open>status.value = v\<close>.\<close>

definition set_status :: "Status \<Rightarrow> 'n uws \<Rightarrow> 'n uws" where
  "set_status v s = s\<lparr> status := v, status_log := status_log s @ [v] \<rparr>"

text \<open>\<open>ws.value?.readyState\<close>: \<open>None\<close> stands for \<open>undefined\<close>.\<close>

definition ws_readyState :: "'n uws \<Rightarrow> ReadyState option" where
  "ws_readyState s =
     (case ws s of
        None \<Rightarrow> None
      | Some h \<Rightarrow> if h < length (socks s) then Some (socks s ! h) else None)"

subsection \<open>The transport's own operations\<close>

text \<open>
  \<open>close()\<close> of a handle starts the closing handshake: a handle that is connecting or open
  becomes CLOSING, and its close event arrives later; on a handle that is closing or
  closed the call does nothing.
\<close>

definition transport_close :: "nat \<Rightarrow> ReadyState list \<Rightarrow> ReadyState list" where
  "transport_close h rs =
     (if h < length rs \<and> (rs ! h = RS_CONNECTING \<or> rs ! h = RS_OPEN)
      then rs[h := RS_CLOSING] else rs)"

text \<open>\<open>clearTimeout(id)\<close>.\<close>

definition clearTimeout :: "nat \<Rightarrow> (nat \<times> nat) list \<Rightarrow> (nat \<times> nat) list" where
  "clearTimeout t ts = filter (\<lambda>p. fst p \<noteq> t) ts"

subsection \<open>connect, the four callbacks, disconnect, send\<close>

text \<open>
  \<open>protocol ? new WebSocket(url, protocol) : new WebSocket(url)\<close>: the empty string is
  falsy.  \<open>Some e\<close> is the exception thrown, \<open>None\<close> a new handle.
\<close>

definition construct_handle :: "'n config \<Rightarrow> errval option" where
  "construct_handle c =
     (if protocol c \<noteq> [] then new_WebSocket c (url c) (Some (protocol c))
      else new_WebSocket c (url c) None)"

definition connect :: "'n config \<Rightarrow> 'n uws \<Rightarrow> 'n uws" where
  "connect c s =
     (if ws_readyState s = Some RS_OPEN then s
      else
        let s1 = set_status CONNECTING (s\<lparr> explicitClose := False \<rparr>) in
        case construct_handle c of
          Some e \<Rightarrow> set_status ERROR (s1\<lparr> error := Some e \<rparr>)
        | None \<Rightarrow> s1\<lparr> ws := Some (length (socks s1)),
                       socks := socks s1 @ [RS_CONNECTING] \<rparr>)"

definition onopen :: "'n uws \<Rightarrow> 'n uws" where
  "onopen s =
     (set_status CONNECTED (s\<lparr> isConnected := True \<rparr>))
       \<lparr> error := None, reconnectCount := 0 \<rparr>"

definition onclose :: "'n config \<Rightarrow> 'n uws \<Rightarrow> 'n uws" where
  "onclose c s =
     (let s1 = (set_status DISCONNECTED (s\<lparr> isConnected := False \<rparr>))\<lparr> ws := None \<rparr> in
      if \<not> explicitClose s1 \<and> autoReconnect c
           \<and> enat (reconnectCount s1) < reconnectAttempts c
      then s1\<lparr> reconnectCount := reconnectCount s1 + 1,
               reconnectTimeoutId := Some (next_timer s1),
               timers := timers s1 @ [(next_timer s1, reconnectDelay c)],
               next_timer := next_timer s1 + 1 \<rparr>
      else s1)"

definition onerror :: "errval \<Rightarrow> 'n uws \<Rightarrow> 'n uws" where
  "onerror event s = set_status ERROR (s\<lparr> error := Some event \<rparr>)"

definition onmessage :: "'n config \<Rightarrow> string \<Rightarrow> 'n uws \<Rightarrow> 'n uws" where
  "onmessage c event_data s =
     (if json c then
        (case JSON_parse c event_data of
           Some v \<Rightarrow> s\<lparr> data := v \<rparr>
         | None \<Rightarrow> s\<lparr> data := JStr event_data \<rparr>)
      else s\<lparr> data := JStr event_data \<rparr>)"

definition disconnect :: "'n uws \<Rightarrow> 'n uws" where
  "disconnect s =
     (let s1 = s\<lparr> explicitClose := True \<rparr>;
          s2 = (case reconnectTimeoutId s1 of
                  None \<Rightarrow> s1
                | Some t \<Rightarrow>
                    if t \<noteq> 0
                    then s1\<lparr> timers := clearTimeout t (timers s1),
                             reconnectTimeoutId := None \<rparr>
                    else s1);
          s3 = (case ws s2 of
                  None \<Rightarrow> s2
                | Some h \<Rightarrow> s2\<lparr> socks := transport_close h (socks s2), ws := None \<rparr>)
      in set_status DISCONNECTED (s3\<lparr> isConnected := False \<rparr>))"

definition send :: "'n config \<Rightarrow> 'n jsval \<Rightarrow> 'n uws \<Rightarrow> bool \<times> 'n uws" where
  "send c message s =
     (case ws s of
        None \<Rightarrow>
          (False, s\<lparr> console := console s @
             [''[useWebSocket] Cannot send - WebSocket is not connected''] \<rparr>)
      | Some h \<Rightarrow>
          if ws_readyState s \<noteq> Some RS_OPEN
          then (False, s\<lparr> console := console s @
             [''[useWebSocket] Cannot send - WebSocket is not connected''] \<rparr>)
          else
            let payload = (if json c \<and> typeof message = T_object
                           then JStr (JSON_stringify c message) else message)
            in (True, s\<lparr> sent := sent s @ [(h, payload)] \<rparr>))"

text \<open>The body of \<open>useWebSocket\<close> itself: the initial state, then the automatic connect.\<close>

definition useWebSocket :: "'n config \<Rightarrow> 'n uws" where
  "useWebSocket c = (if autoConnect c then connect c initial else initial)"

subsection \<open>Executions\<close>

text \<open>
  What can happen to an instance: the application calls \<open>connect()\<close>, \<open>disconnect()\<close> or
  \<open>send(message)\<close>; the transport fires one of the four callbacks of handle \<open>h\<close>; a
  timer fires.  Every handle gets the same four closures, which act on the instance's
  shared references whichever handle fires them.
\<close>

datatype 'n event =
    Call_connect
  | Call_disconnect
  | Call_send "'n jsval"
  | Ev_open nat
  | Ev_close nat
  | Ev_error nat errval
  | Ev_message nat string
  | Timer_fires nat

text \<open>
  One event.  The transport sets a handle's \<open>readyState\<close> to OPEN before it fires the
  open event and to CLOSED before it fires the close event.  A timer fires only while it
  is pending, and then runs the scheduled \<open>connect()\<close>; a cleared timer never runs.
\<close>

definition step :: "'n config \<Rightarrow> 'n uws \<Rightarrow> 'n event \<Rightarrow> 'n uws" where
  "step c s ev =
     (case ev of
        Call_connect \<Rightarrow> connect c s
      | Call_disconnect \<Rightarrow> disconnect s
      | Call_send m \<Rightarrow> snd (send c m s)
      | Ev_open h \<Rightarrow> onopen (s\<lparr> socks := (socks s)[h := RS_OPEN] \<rparr>)
      | Ev_close h \<Rightarrow> onclose c (s\<lparr> socks := (socks s)[h := RS_CLOSED] \<rparr>)
      | Ev_error h e \<Rightarrow> onerror e s
      | Ev_message h d \<Rightarrow> onmessage c d s
      | Timer_fires t \<Rightarrow>
          if t \<in> fst ` set (timers s)
          then connect c (s\<lparr> timers := clearTimeout t (timers s) \<rparr>)
          else s)"

definition run :: "'n config \<Rightarrow> 'n uws \<Rightarrow> 'n event list \<Rightarrow> 'n uws" where
  "run c s evs = foldl (step c) s evs"

text \<open>
  The events a real transport and timer queue can deliver in state \<open>s\<close>: callbacks only
  of handles that exist; open only while connecting; close and error only before the
  handle is closed; a message only while open; a timer only while pending.  The
  theorems below that speak of all executions do not need this restriction; it
  certifies that the executions exhibited as counterexamples can really occur.
\<close>

definition feasible :: "'n uws \<Rightarrow> 'n event \<Rightarrow> bool" where
  "feasible s ev =
     (case ev of
        Ev_open h \<Rightarrow> h < length (socks s) \<and> socks s ! h = RS_CONNECTING
      | Ev_close h \<Rightarrow> h < length (socks s) \<and> socks s ! h \<noteq> RS_CLOSED
      | Ev_error h e \<Rightarrow> h < length (socks s) \<and> socks s ! h \<noteq> RS_CLOSED
      | Ev_message h d \<Rightarrow> h < length (socks s) \<and> socks s ! h = RS_OPEN
      | Timer_fires t \<Rightarrow> t \<in> fst ` set (timers s)
      | _ \<Rightarrow> True)"

fun feasible_run :: "'n config \<Rightarrow> 'n uws \<Rightarrow> 'n event list \<Rightarrow> bool" where
  "feasible_run c s [] = True"
| "feasible_run c s (ev # evs) = (feasible s ev \<and> feasible_run c (step c s ev) evs)"

fun is_close :: "'n event \<Rightarrow> bool" where
  "is_close (Ev_close h) = True"
| "is_close ev = False"

fun is_open :: "'n event \<Rightarrow> bool" where
  "is_open (Ev_open h) = True"
| "is_open ev = False"

fun is_disconnect :: "'n event \<Rightarrow> bool" where
  "is_disconnect Call_disconnect = True"
| "is_disconnect ev = False"

text \<open>A handle is live while it is connecting or open.\<close>

definition live_handles :: "'n uws \<Rightarrow> nat list" where
  "live_handles s =
     filter (\<lambda>h. socks s ! h = RS_CONNECTING \<or> socks s ! h = RS_OPEN) [0 ..< length (socks s)]"

definition closes :: "'n event list \<Rightarrow> nat" where
  "closes evs = length (filter is_close evs)"

text \<open>
  What every state reached from \<open>initial\<close> satisfies: with status DISCONNECTED no handle
  is held; a held handle is one this instance constructed; and \<open>status\<close> is the last value
  assigned to it.
\<close>

definition consistent :: "'n uws \<Rightarrow> bool" where
  "consistent s =
     ((status s = DISCONNECTED \<longrightarrow> ws s = None)
      \<and> (\<forall>h. ws s = Some h \<longrightarrow> h < length (socks s))
      \<and> status s = last (DISCONNECTED # status_log s))"

subsection \<open>The transitions of section 8 of the specification\<close>

text \<open>
  The specification's list of status transitions, written from its words:
  DISCONNECTED to CONNECTING, CONNECTING to CONNECTED or ERROR, CONNECTED to
  DISCONNECTED.  \<open>spec_path\<close> says that a sequence of statuses moves only along them.
\<close>

fun spec_transition :: "Status \<Rightarrow> Status \<Rightarrow> bool" where
  "spec_transition DISCONNECTED CONNECTING = True"
| "spec_transition CONNECTING CONNECTED = True"
| "spec_transition CONNECTING ERROR = True"
| "spec_transition CONNECTED DISCONNECTED = True"
| "spec_transition a b = False"

fun spec_path :: "Status list \<Rightarrow> bool" where
  "spec_path (a # b # rest) = (spec_transition a b \<and> spec_path (b # rest))"
| "spec_path rest = True"

subsection \<open>Concrete configurations\<close>

text \<open>
  The host functions of the test suite's examples: a constructor that accepts the
  address, and the two JSON functions on the one message the tests exchange.
\<close>

definition test_message :: "int jsval" where
  "test_message = JObj [(''type'', JStr ''test''), (''data'', JNum 123)]"

definition test_text :: string where
  "test_text = ''{\"type\":\"test\",\"data\":123}''"

definition test_config :: "int config" where
  "test_config = \<lparr> url = ''ws://localhost:9090'', autoConnect = False,
     autoReconnect = True, reconnectAttempts = enat 2, reconnectDelay = 1000,
     protocol = [], json = True,
     new_WebSocket = (\<lambda>u p. None),
     JSON_parse = (\<lambda>t. if t = test_text then Some test_message else None),
     JSON_stringify = (\<lambda>v. if v = test_message then test_text else ''null'') \<rparr>"

text \<open>The same with a malformed address: the constructor throws.\<close>

definition bad_url_config :: "int config" where
  "bad_url_config = test_config \<lparr> url := ''not a url'',
     new_WebSocket := (\<lambda>u p. Some (Exception ''SyntaxError'')) \<rparr>"

section \<open>The store-routing connection manager\<close>

text \<open>
  The plugin's \<open>Observer\<close> class (\<open>src/Observer.js\<close>) is imported by \<open>Main.js\<close> and
  exercised by the test suite, but its file is not among the sources.  The two
  operations needed here, the routing of an event to the state sink (\<open>passToStore\<close>) and
  the close handling with its retry policy, are therefore written from sections 4.2 and
  4.3 of the specification.
\<close>

text \<open>
  Modelled from the spec: the shape of a state sink, classified at configuration time
  (\<open>Observer\<close>'s store detection is missing).  A Patcher is given by the names of its
  action methods.
\<close>

datatype sink_kind = Committer | Patcher "string list" | Unknown

text \<open>
  Modelled from the spec: what is routed with an event label (\<open>Observer\<close>'s callers of
  \<open>passToStore\<close> are missing): the transport's event with its textual data, the attempt
  counter of \<open>SOCKET_RECONNECT\<close>, or the flag of \<open>SOCKET_RECONNECT_ERROR\<close>.
\<close>

datatype 'n payload = Event_payload "'n jsval" | Count_payload nat | Flag_payload bool

text \<open>
  Modelled from the spec: the calls a routing can make on the sink (\<open>commit(name, payload)\<close>,
  \<open>dispatch(path, payload)\<close>, a named action method), and the warning it logs.
\<close>

datatype 'n sink_call =
    Commit string "'n payload"
  | Dispatch string "'n payload"
  | Action string "'n payload"
  | Warning string

text \<open>
  Modelled from the spec: the routing options of section 6 (\<open>Observer\<close>'s constructor is
  missing): the sink, \<open>format: json\<close>, the \<open>mutations\<close> mapping, the \<open>passToStoreHandler\<close>
  (a function of the label, the event and the continuation \<open>next\<close>, returning the sink
  calls it causes), and the host's \<open>JSON.parse\<close>.
\<close>

record 'n router =
  sink :: sink_kind
  format_json :: bool
  mutations :: "string \<Rightarrow> string option"
  passToStoreHandler ::
    "(string \<Rightarrow> 'n payload \<Rightarrow> (string \<Rightarrow> 'n payload \<Rightarrow> 'n sink_call list)
        \<Rightarrow> 'n sink_call list) option"
  router_parse :: "string \<Rightarrow> 'n jsval option"

text \<open>
  Modelled from the spec: ``begins with the reserved prefix'' (\<open>Observer\<close>'s test of the
  label is missing).
\<close>

definition startsWith :: "string \<Rightarrow> string \<Rightarrow> bool" where
  "startsWith s p = (take (length p) s = p)"

text \<open>
  Modelled from the spec: a decoded message ``carries'' a field (\<open>Observer\<close>'s reading of
  \<open>action\<close>, \<open>mutation\<close> and \<open>namespace\<close> is missing): a textual top-level property.
\<close>

definition text_field :: "string \<Rightarrow> 'n jsval \<Rightarrow> string option" where
  "text_field k v =
     (case v of
        JObj kvs \<Rightarrow> (case map_of kvs k of Some (JStr t) \<Rightarrow> Some t | _ \<Rightarrow> None)
      | _ \<Rightarrow> None)"

text \<open>
  Modelled from the spec: the default routing of section 4.2 (\<open>Observer.passToStore\<close>'s
  default branch is missing).  A textual payload that decodes under \<open>format: json\<close> and
  carries \<open>action\<close> and \<open>namespace\<close> is dispatched on a Committer, one that carries
  \<open>mutation\<close> and \<open>namespace\<close> is committed; otherwise the mapped name of the label is
  committed on a Committer or called as a method on a Patcher, which warns when it has no
  such method; an Unknown sink gets nothing.
\<close>

definition default_route :: "'n router \<Rightarrow> string \<Rightarrow> 'n payload \<Rightarrow> 'n sink_call list" where
  "default_route r eventLabel p =
     (let mapped = (case mutations r eventLabel of Some n \<Rightarrow> n | None \<Rightarrow> eventLabel);
          decoded = (case p of
                       Event_payload (JStr t) \<Rightarrow> if format_json r then router_parse r t else None
                     | _ \<Rightarrow> None)
      in case sink r of
           Unknown \<Rightarrow> []
         | Patcher methods \<Rightarrow>
             if mapped \<in> set methods then [Action mapped p]
             else [Warning mapped]
         | Committer \<Rightarrow>
             (case decoded of
                None \<Rightarrow> [Commit mapped p]
              | Some v \<Rightarrow>
                  (case (text_field ''action'' v, text_field ''namespace'' v) of
                     (Some a, Some ns) \<Rightarrow> [Dispatch (ns @ ''/'' @ a) (Event_payload v)]
                   | _ \<Rightarrow>
                      (case (text_field ''mutation'' v, text_field ''namespace'' v) of
                         (Some m, Some ns) \<Rightarrow> [Commit (ns @ ''/'' @ m) (Event_payload v)]
                       | _ \<Rightarrow> [Commit mapped p]))))"

text \<open>
  Modelled from the spec: \<open>route\<close> of section 4.2 (\<open>Observer.passToStore\<close> is missing).  It
  is skipped entirely unless the label begins with \<open>SOCKET_\<close>; a custom handler, when
  supplied, is deferred to with the default routing as its continuation.
\<close>

definition route :: "'n router \<Rightarrow> string \<Rightarrow> 'n payload \<Rightarrow> 'n sink_call list" where
  "route r eventLabel p =
     (if \<not> startsWith eventLabel ''SOCKET_'' then []
      else case passToStoreHandler r of
             Some handler \<Rightarrow> handler eventLabel p (default_route r)
           | None \<Rightarrow> default_route r eventLabel p)"

text \<open>
  Modelled from the spec: the part of the ConnectionManager's state that its close
  handling reads and writes (\<open>Observer\<close>'s fields are missing), with the pending timers
  and the calls made on the sink so far.
\<close>

record 'n cm =
  cm_status :: Status
  cm_handle :: "nat option"
  cm_count :: nat
  cm_explicit :: bool
  cm_timers :: "(nat \<times> nat) list"
  cm_next_timer :: nat
  cm_calls :: "'n sink_call list"

text \<open>Modelled from the spec: the reconnect policy (enabled flag, max attempts, delay).\<close>

record policy =
  reconnection :: bool
  reconnectionAttempts :: enat
  reconnectionDelay :: nat

text \<open>
  Modelled from the spec: the transport's close event in section 4.3 (\<open>Observer\<close>'s
  \<open>onclose\<close> and \<open>reconnect\<close> are missing).  Transition to DISCONNECTED, discard the
  handle, route \<open>SOCKET_ONCLOSE\<close>; if the close was not explicit and the policy is enabled,
  then below the maximum increment the counter, route \<open>SOCKET_RECONNECT\<close> with the new
  value and schedule \<open>connect()\<close> after the fixed delay, and at the maximum route
  \<open>SOCKET_RECONNECT_ERROR\<close> instead and schedule nothing.
\<close>

definition cm_onclose :: "policy \<Rightarrow> 'n router \<Rightarrow> 'n payload \<Rightarrow> 'n cm \<Rightarrow> 'n cm" where
  "cm_onclose pol r event s =
     (let s1 = s\<lparr> cm_status := DISCONNECTED, cm_handle := None,
                  cm_calls := cm_calls s @ route r ''SOCKET_ONCLOSE'' event \<rparr> in
      if \<not> cm_explicit s1 \<and> reconnection pol then
        (if enat (cm_count s1) < reconnectionAttempts pol
         then s1\<lparr> cm_count := cm_count s1 + 1,
                  cm_calls := cm_calls s1 @
                    route r ''SOCKET_RECONNECT'' (Count_payload (cm_count s1 + 1)),
                  cm_timers := cm_timers s1 @ [(cm_next_timer s1, reconnectionDelay pol)],
                  cm_next_timer := cm_next_timer s1 + 1 \<rparr>
         else s1\<lparr> cm_calls := cm_calls s1 @
                    route r ''SOCKET_RECONNECT_ERROR'' (Flag_payload True) \<rparr>)
      else s1)"

text \<open>
  Concrete inputs: the test suite's store \<open>{ commit, dispatch }\<close> with no handler and no
  mapping, its policy of two attempts, and a manager that has not connected yet.
\<close>

definition test_router :: "int router" where
  "test_router = \<lparr> sink = Committer, format_json = False, mutations = (\<lambda>l. None),
     passToStoreHandler = None, router_parse = (\<lambda>t. None) \<rparr>"

definition test_policy :: policy where
  "test_policy = \<lparr> reconnection = True, reconnectionAttempts = enat 2,
     reconnectionDelay = 1000 \<rparr>"

definition cm_initial :: "'n cm" where
  "cm_initial = \<lparr> cm_status = DISCONNECTED, cm_handle = None, cm_count = 0,
     cm_explicit = False, cm_timers = [], cm_next_timer = 1, cm_calls = [] \<rparr>"

section \<open>Properties\<close>

subsection \<open>Executions and reached states\<close>

lemma run_Nil [simp]: "run c s [] = s"
  by (simp add: run_def)

lemma run_Cons [simp]: "run c s (ev # evs) = run c (step c s ev) evs"
  by (simp add: run_def)

lemma closes_Nil [simp]: "closes [] = 0"
  by (simp add: closes_def)

lemma closes_Cons [simp]: "closes (ev # evs) = (if is_close ev then 1 else 0) + closes evs"
  by (simp add: closes_def)

lemmas handler_defs = connect_def disconnect_def send_def onopen_def onclose_def onerror_def
  onmessage_def set_status_def ws_readyState_def transport_close_def clearTimeout_def

lemmas test_defs = initial_def test_config_def bad_url_config_def construct_handle_def feasible_def
  test_text_def test_message_def

lemma useWebSocket_run:
  "useWebSocket c = run c initial (if autoConnect c then [Call_connect] else [])"
  by (simp add: useWebSocket_def step_def)

lemma consistent_initial: "consistent initial"
  by (simp add: consistent_def initial_def)

lemma consistent_step: "consistent s \<Longrightarrow> consistent (step c s ev)"
  by (cases ev)
     (auto simp: consistent_def step_def handler_defs Let_def split: option.splits if_splits)

lemma consistent_run: "consistent s \<Longrightarrow> consistent (run c s evs)"
  by (induction evs arbitrary: s) (simp_all add: consistent_step)

lemma consistent_reached: "consistent (run c initial evs)"
  by (rule consistent_run [OF consistent_initial])

subsection \<open>Status transitions\<close>

lemma step_status_log:
  "status_log (step c s ev) = status_log s @
     (case ev of
        Call_connect \<Rightarrow>
          if ws_readyState s = Some RS_OPEN then []
          else (case construct_handle c of None \<Rightarrow> [CONNECTING] | Some e \<Rightarrow> [CONNECTING, ERROR])
      | Timer_fires t \<Rightarrow>
          if t \<in> fst ` set (timers s) \<and> ws_readyState s \<noteq> Some RS_OPEN
          then (case construct_handle c of None \<Rightarrow> [CONNECTING] | Some e \<Rightarrow> [CONNECTING, ERROR])
          else []
      | Call_disconnect \<Rightarrow> [DISCONNECTED]
      | Ev_close h \<Rightarrow> [DISCONNECTED]
      | Ev_open h \<Rightarrow> [CONNECTED]
      | Ev_error h e \<Rightarrow> [ERROR]
      | Call_send m \<Rightarrow> []
      | Ev_message h d \<Rightarrow> [])"
  by (cases ev) (auto simp: step_def handler_defs Let_def split: option.splits)

lemma fresh_connect:
  assumes "consistent s" and "status s = DISCONNECTED"
  shows "status_log (connect c s) = status_log s @
     (case construct_handle c of None \<Rightarrow> [CONNECTING] | Some e \<Rightarrow> [CONNECTING, ERROR])"
  using assms by (auto simp: consistent_def handler_defs Let_def split: option.splits)

text \<open>
  C1, as the specification states it, fails: an error event on an open connection takes
  the status from CONNECTED to ERROR, which is not one of the four listed transitions
  (the test ``should set error on WebSocket error'' expects exactly this).  Likewise a
  close after an error takes it from ERROR to DISCONNECTED, the reconnect that follows
  from there to CONNECTING, and \<open>disconnect()\<close> while connecting from CONNECTING to
  DISCONNECTED.
\<close>

theorem status_error_while_connected:
  "feasible_run test_config initial [Call_connect, Ev_open 0, Ev_error 0 (ErrorEvent ''error'')]
   \<and> status_log (run test_config initial
         [Call_connect, Ev_open 0, Ev_error 0 (ErrorEvent ''error'')])
       = [CONNECTING, CONNECTED, ERROR]
   \<and> \<not> spec_path (DISCONNECTED # status_log (run test_config initial
         [Call_connect, Ev_open 0, Ev_error 0 (ErrorEvent ''error'')]))
   \<and> feasible_run test_config initial
         [Call_connect, Ev_error 0 (ErrorEvent ''error''), Ev_close 0, Timer_fires 1]
   \<and> status_log (run test_config initial
         [Call_connect, Ev_error 0 (ErrorEvent ''error''), Ev_close 0, Timer_fires 1])
       = [CONNECTING, ERROR, DISCONNECTED, CONNECTING]
   \<and> feasible_run test_config initial [Call_connect, Call_disconnect]
   \<and> status_log (run test_config initial [Call_connect, Call_disconnect])
       = [CONNECTING, DISCONNECTED]"
  by (simp add: step_def handler_defs test_defs)

text \<open>
  C1, amended: the status is written by these operations and by nothing else.
  \<open>connect()\<close>, called by the application or by the reconnect timer, writes CONNECTING
  unless the held handle is open, and then ERROR if the construction of the handle
  throws; the open callback writes CONNECTED; the error callback writes ERROR and the
  close callback and \<open>disconnect()\<close> write DISCONNECTED, each whatever the status was;
  \<open>send\<close> and the message callback write nothing.  The \<open>status\<close> of a reached state is the
  last value written, and a \<open>connect()\<close> in a reached state whose status is DISCONNECTED
  always writes CONNECTING first.
\<close>

theorem status_written_by_operation:
  "status_log (step c s ev) = status_log s @
     (case ev of
        Call_connect \<Rightarrow>
          if ws_readyState s = Some RS_OPEN then []
          else (case construct_handle c of None \<Rightarrow> [CONNECTING] | Some e \<Rightarrow> [CONNECTING, ERROR])
      | Timer_fires t \<Rightarrow>
          if t \<in> fst ` set (timers s) \<and> ws_readyState s \<noteq> Some RS_OPEN
          then (case construct_handle c of None \<Rightarrow> [CONNECTING] | Some e \<Rightarrow> [CONNECTING, ERROR])
          else []
      | Call_disconnect \<Rightarrow> [DISCONNECTED]
      | Ev_close h \<Rightarrow> [DISCONNECTED]
      | Ev_open h \<Rightarrow> [CONNECTED]
      | Ev_error h e \<Rightarrow> [ERROR]
      | Call_send m \<Rightarrow> []
      | Ev_message h d \<Rightarrow> [])
   \<and> status (run c initial evs) = last (DISCONNECTED # status_log (run c initial evs))
   \<and> (status (run c initial evs) = DISCONNECTED \<longrightarrow>
        status_log (connect c (run c initial evs)) = status_log (run c initial evs) @
          (case construct_handle c of None \<Rightarrow> [CONNECTING] | Some e \<Rightarrow> [CONNECTING, ERROR]))"
proof -
  have reached: "consistent (run c initial evs)"
    by (rule consistent_reached)
  then have last_written:
    "status (run c initial evs) = last (DISCONNECTED # status_log (run c initial evs))"
    by (simp add: consistent_def)
  have fresh: "status (run c initial evs) = DISCONNECTED \<longrightarrow>
        status_log (connect c (run c initial evs)) = status_log (run c initial evs) @
          (case construct_handle c of None \<Rightarrow> [CONNECTING] | Some e \<Rightarrow> [CONNECTING, ERROR])"
    using fresh_connect [OF reached] by blast
  from step_status_log last_written fresh show ?thesis
    by (intro conjI)
qed

theorem status_written_by_operation_witness:
  "status (run test_config initial [Call_connect, Ev_close 0]) = DISCONNECTED
   \<and> status_log (run test_config initial [Call_connect, Ev_close 0]) = [CONNECTING, DISCONNECTED]
   \<and> status_log (connect test_config (run test_config initial [Call_connect, Ev_close 0]))
       = [CONNECTING, DISCONNECTED, CONNECTING]
   \<and> status_log (step bad_url_config initial Call_connect) = [CONNECTING, ERROR]"
  using status_written_by_operation [of test_config initial Call_connect "[Call_connect, Ev_close 0]"]
    status_written_by_operation [of bad_url_config initial Call_connect "[]"]
  by (simp add: step_def handler_defs test_defs)

subsection \<open>Bounded reconnection\<close>

lemmas cm_defs = cm_onclose_def route_def default_route_def startsWith_def test_router_def
  test_policy_def cm_initial_def

lemma step_retry_counter:
  assumes "autoReconnect c" "\<not> explicitClose s" "\<not> is_open ev" "\<not> is_disconnect ev"
    "enat (reconnectCount s) \<le> reconnectAttempts c"
  shows "\<not> explicitClose (step c s ev)
     \<and> enat (reconnectCount (step c s ev)) \<le> reconnectAttempts c
     \<and> enat (reconnectCount (step c s ev))
         = min (enat (reconnectCount s + (if is_close ev then 1 else 0))) (reconnectAttempts c)
     \<and> next_timer (step c s ev) + reconnectCount s = next_timer s + reconnectCount (step c s ev)"
proof (cases ev)
  case (Ev_close h)
  show ?thesis
  proof (cases "enat (reconnectCount s) < reconnectAttempts c")
    case True
    then have "enat (Suc (reconnectCount s)) \<le> reconnectAttempts c"
      by (simp add: Suc_ile_eq)
    with True assms Ev_close show ?thesis
      by (simp add: step_def onclose_def set_status_def Let_def min_def)
  next
    case False
    with assms have "reconnectAttempts c = enat (reconnectCount s)" by simp
    with assms Ev_close show ?thesis
      by (simp add: step_def onclose_def set_status_def Let_def min_def)
  qed
qed (use assms in \<open>auto simp: step_def handler_defs Let_def min_def split: option.splits\<close>)

lemma run_retry_counter:
  assumes "autoReconnect c" "\<not> explicitClose s"
    "\<forall>ev\<in>set evs. \<not> is_open ev \<and> \<not> is_disconnect ev"
    "enat (reconnectCount s) \<le> reconnectAttempts c"
  shows "enat (reconnectCount (run c s evs))
         = min (enat (reconnectCount s + closes evs)) (reconnectAttempts c)
     \<and> next_timer (run c s evs) + reconnectCount s = next_timer s + reconnectCount (run c s evs)"
  using assms
proof (induction evs arbitrary: s)
  case Nil
  then show ?case by (simp add: min_def)
next
  case (Cons ev evs)
  let ?s' = "step c s ev"
  from Cons.prems have st: "\<not> explicitClose ?s'"
      "enat (reconnectCount ?s') \<le> reconnectAttempts c"
      "enat (reconnectCount ?s')
         = min (enat (reconnectCount s + (if is_close ev then 1 else 0))) (reconnectAttempts c)"
      "next_timer ?s' + reconnectCount s = next_timer s + reconnectCount ?s'"
    using step_retry_counter [of c s ev] by simp_all
  from Cons.prems have rest: "\<forall>ev\<in>set evs. \<not> is_open ev \<and> \<not> is_disconnect ev" by simp
  note ih = Cons.IH [OF Cons.prems(1) st(1) rest st(2)]
  have a: "enat (reconnectCount (run c ?s' evs))
      = min (enat (reconnectCount s + closes (ev # evs))) (reconnectAttempts c)"
  proof (cases "enat (reconnectCount s + (if is_close ev then 1 else 0)) \<le> reconnectAttempts c")
    case True
    with st(3) have "reconnectCount ?s' = reconnectCount s + (if is_close ev then 1 else 0)"
      by (simp add: min_def split: if_splits)
    with ih show ?thesis by (simp add: add.assoc)
  next
    case False
    with st(3) have top: "enat (reconnectCount ?s') = reconnectAttempts c"
      by (simp add: min_def)
    from False have "\<not> enat (reconnectCount s + closes (ev # evs)) \<le> reconnectAttempts c"
      by (cases "reconnectAttempts c") (auto split: if_splits)
    moreover from top have "\<not> enat (reconnectCount ?s' + closes evs) < reconnectAttempts c"
      by (cases "reconnectAttempts c") auto
    ultimately show ?thesis using ih top by (simp add: min_def split: if_splits)
  qed
  from ih st(4) have b: "next_timer (run c ?s' evs) + reconnectCount s
      = next_timer s + reconnectCount (run c ?s' evs)"
    by simp
  from a b show ?case by simp
qed

lemma cm_onclose_counter:
  assumes "reconnection pol" "\<not> cm_explicit m" "enat (cm_count m) \<le> reconnectionAttempts pol"
  shows "\<not> cm_explicit (cm_onclose pol r e m)
     \<and> enat (cm_count (cm_onclose pol r e m)) \<le> reconnectionAttempts pol
     \<and> enat (cm_count (cm_onclose pol r e m))
         = min (enat (cm_count m + 1)) (reconnectionAttempts pol)
     \<and> cm_next_timer (cm_onclose pol r e m) + cm_count m
         = cm_next_timer m + cm_count (cm_onclose pol r e m)"
proof (cases "enat (cm_count m) < reconnectionAttempts pol")
  case True
  then have "enat (Suc (cm_count m)) \<le> reconnectionAttempts pol"
    by (simp add: Suc_ile_eq)
  with True assms show ?thesis
    by (simp add: cm_onclose_def Let_def min_def)
next
  case False
  with assms have "reconnectionAttempts pol = enat (cm_count m)" by simp
  with assms show ?thesis
    by (simp add: cm_onclose_def Let_def min_def)
qed

lemma cm_closes_counter:
  assumes "reconnection pol" "\<not> cm_explicit m" "enat (cm_count m) \<le> reconnectionAttempts pol"
  shows "\<not> cm_explicit ((cm_onclose pol r e ^^ n) m)
     \<and> enat (cm_count ((cm_onclose pol r e ^^ n) m)) \<le> reconnectionAttempts pol
     \<and> enat (cm_count ((cm_onclose pol r e ^^ n) m))
         = min (enat (cm_count m + n)) (reconnectionAttempts pol)
     \<and> cm_next_timer ((cm_onclose pol r e ^^ n) m) + cm_count m
         = cm_next_timer m + cm_count ((cm_onclose pol r e ^^ n) m)"
proof (induction n)
  case 0
  from assms show ?case by (simp add: min_def)
next
  case (Suc n)
  let ?m = "(cm_onclose pol r e ^^ n) m"
  from Suc have ih: "\<not> cm_explicit ?m" "enat (cm_count ?m) \<le> reconnectionAttempts pol"
    "enat (cm_count ?m) = min (enat (cm_count m + n)) (reconnectionAttempts pol)"
    "cm_next_timer ?m + cm_count m = cm_next_timer m + cm_count ?m"
    by simp_all
  note st = cm_onclose_counter [OF assms(1) ih(1) ih(2), of r e]
  have "enat (cm_count (cm_onclose pol r e ?m))
      = min (enat (cm_count m + Suc n)) (reconnectionAttempts pol)"
  proof (cases "enat (cm_count m + n) \<le> reconnectionAttempts pol")
    case True
    with ih(3) have "cm_count ?m = cm_count m + n" by (simp add: min_def)
    with st show ?thesis by simp
  next
    case False
    with ih(3) have top: "reconnectionAttempts pol = enat (cm_count ?m)"
      by (simp add: min_def)
    from False have "\<not> enat (cm_count m + Suc n) \<le> reconnectionAttempts pol"
      by (cases "reconnectionAttempts pol") auto
    with st top show ?thesis by (simp add: min_def split: if_splits)
  qed
  moreover from st ih(4) have "cm_next_timer (cm_onclose pol r e ?m) + cm_count m
      = cm_next_timer m + cm_count (cm_onclose pol r e ?m)"
    by simp
  ultimately show ?case using st by simp
qed

lemma cm_onclose_exhausted:
  assumes "reconnection pol" "\<not> cm_explicit m" "\<not> enat (cm_count m) < reconnectionAttempts pol"
  shows "cm_calls (cm_onclose pol r e m) = cm_calls m @ route r ''SOCKET_ONCLOSE'' e
            @ route r ''SOCKET_RECONNECT_ERROR'' (Flag_payload True)
     \<and> cm_timers (cm_onclose pol r e m) = cm_timers m
     \<and> cm_next_timer (cm_onclose pol r e m) = cm_next_timer m
     \<and> cm_count (cm_onclose pol r e m) = cm_count m"
  using assms by (simp add: cm_onclose_def Let_def)

lemma onclose_retry:
  assumes "autoReconnect c" "\<not> explicitClose s" "enat (reconnectCount s) < reconnectAttempts c"
  shows "timers (onclose c s) = timers s @ [(next_timer s, reconnectDelay c)]
     \<and> reconnectTimeoutId (onclose c s) = Some (next_timer s)
     \<and> reconnectCount (onclose c s) = reconnectCount s + 1
     \<and> step c (onclose c s) (Timer_fires (next_timer s))
         = connect c ((onclose c s)\<lparr> timers := clearTimeout (next_timer s) (timers (onclose c s)) \<rparr>)"
  using assms by (simp add: onclose_def set_status_def Let_def step_def)

lemma onclose_exhausted:
  assumes "\<not> enat (reconnectCount s) < reconnectAttempts c"
  shows "timers (onclose c s) = timers s \<and> next_timer (onclose c s) = next_timer s
     \<and> reconnectCount (onclose c s) = reconnectCount s
     \<and> reconnectTimeoutId (onclose c s) = reconnectTimeoutId s"
  using assms by (simp add: onclose_def set_status_def Let_def)

text \<open>
  C2: with reconnection enabled, starting with the attempt counter at zero and the
  explicit-close flag clear, after any execution without an open event and without
  \<open>disconnect()\<close> that contains N close events, exactly min(N, M) reconnects have been
  scheduled, M being \<open>reconnectAttempts\<close>.  A scheduled reconnect is a timer with the
  fixed delay \<open>reconnectDelay\<close> that runs \<open>connect()\<close> when it fires, and it comes with
  an increment of the counter; once the counter is not below M, a close schedules
  nothing.  The connection manager of the store-routing path behaves alike under N
  close events in a row, and once its counter is not below the maximum a non-explicit
  close routes \<open>SOCKET_ONCLOSE\<close> and then \<open>SOCKET_RECONNECT_ERROR\<close> and schedules nothing.
\<close>

theorem reconnect_attempts_bounded:
  assumes "autoReconnect c" and "\<not> explicitClose s" and "reconnectCount s = 0"
    and "\<forall>ev\<in>set evs. \<not> is_open ev \<and> \<not> is_disconnect ev"
    and "reconnection pol" and "\<not> cm_explicit m" and "cm_count m = 0"
  shows "enat (next_timer (run c s evs) - next_timer s)
            = min (enat (closes evs)) (reconnectAttempts c)
     \<and> enat (reconnectCount (run c s evs)) = min (enat (closes evs)) (reconnectAttempts c)
     \<and> (\<forall>s'. \<not> explicitClose s' \<and> enat (reconnectCount s') < reconnectAttempts c \<longrightarrow>
            timers (onclose c s') = timers s' @ [(next_timer s', reconnectDelay c)]
          \<and> reconnectCount (onclose c s') = reconnectCount s' + 1
          \<and> step c (onclose c s') (Timer_fires (next_timer s'))
              = connect c ((onclose c s')
                  \<lparr> timers := clearTimeout (next_timer s') (timers (onclose c s')) \<rparr>))
     \<and> (\<forall>s'. \<not> enat (reconnectCount s') < reconnectAttempts c \<longrightarrow>
            timers (onclose c s') = timers s' \<and> next_timer (onclose c s') = next_timer s'
          \<and> reconnectCount (onclose c s') = reconnectCount s')
     \<and> enat (cm_next_timer ((cm_onclose pol r e ^^ n) m) - cm_next_timer m)
            = min (enat n) (reconnectionAttempts pol)
     \<and> (\<forall>m'. \<not> cm_explicit m' \<and> \<not> enat (cm_count m') < reconnectionAttempts pol \<longrightarrow>
            cm_calls (cm_onclose pol r e m') = cm_calls m' @ route r ''SOCKET_ONCLOSE'' e
               @ route r ''SOCKET_RECONNECT_ERROR'' (Flag_payload True)
          \<and> cm_timers (cm_onclose pol r e m') = cm_timers m'
          \<and> cm_next_timer (cm_onclose pol r e m') = cm_next_timer m')"
proof -
  from assms(3) have le: "enat (reconnectCount s) \<le> reconnectAttempts c"
    by (simp add: zero_enat_def [symmetric])
  note uws = run_retry_counter [OF assms(1) assms(2) assms(4) le]
  from uws assms(3) have count:
    "enat (reconnectCount (run c s evs)) = min (enat (closes evs)) (reconnectAttempts c)"
    by simp
  from uws assms(3) have "next_timer (run c s evs) - next_timer s = reconnectCount (run c s evs)"
    by simp
  with count have scheduled: "enat (next_timer (run c s evs) - next_timer s)
      = min (enat (closes evs)) (reconnectAttempts c)"
    by simp
  from assms(7) have cle: "enat (cm_count m) \<le> reconnectionAttempts pol"
    by (simp add: zero_enat_def [symmetric])
  note cmc = cm_closes_counter [OF assms(5) assms(6) cle, where r = r and e = e and n = n]
  from cmc assms(7) have ccount: "enat (cm_count ((cm_onclose pol r e ^^ n) m))
      = min (enat n) (reconnectionAttempts pol)"
    by simp
  from cmc assms(7) have "cm_next_timer ((cm_onclose pol r e ^^ n) m) - cm_next_timer m
      = cm_count ((cm_onclose pol r e ^^ n) m)"
    by simp
  with ccount have cscheduled: "enat (cm_next_timer ((cm_onclose pol r e ^^ n) m) - cm_next_timer m)
      = min (enat n) (reconnectionAttempts pol)"
    by simp
  have retry: "\<forall>s'. \<not> explicitClose s' \<and> enat (reconnectCount s') < reconnectAttempts c \<longrightarrow>
            timers (onclose c s') = timers s' @ [(next_timer s', reconnectDelay c)]
          \<and> reconnectCount (onclose c s') = reconnectCount s' + 1
          \<and> step c (onclose c s') (Timer_fires (next_timer s'))
              = connect c ((onclose c s')
                  \<lparr> timers := clearTimeout (next_timer s') (timers (onclose c s')) \<rparr>)"
    using onclose_retry [OF assms(1)] by blast
  have exhausted: "\<forall>s'. \<not> enat (reconnectCount s') < reconnectAttempts c \<longrightarrow>
            timers (onclose c s') = timers s' \<and> next_timer (onclose c s') = next_timer s'
          \<and> reconnectCount (onclose c s') = reconnectCount s'"
    using onclose_exhausted by blast
  have cexhausted: "\<forall>m'. \<not> cm_explicit m' \<and> \<not> enat (cm_count m') < reconnectionAttempts pol \<longrightarrow>
            cm_calls (cm_onclose pol r e m') = cm_calls m' @ route r ''SOCKET_ONCLOSE'' e
               @ route r ''SOCKET_RECONNECT_ERROR'' (Flag_payload True)
          \<and> cm_timers (cm_onclose pol r e m') = cm_timers m'
          \<and> cm_next_timer (cm_onclose pol r e m') = cm_next_timer m'"
    using cm_onclose_exhausted [OF assms(5)] by blast
  from scheduled count retry exhausted cscheduled cexhausted show ?thesis
    by (intro conjI)
qed

theorem reconnect_attempts_bounded_witness:
  "autoReconnect test_config \<and> reconnectAttempts test_config = enat 2
   \<and> closes [Call_connect, Ev_close 0, Timer_fires 1, Ev_close 1, Timer_fires 2, Ev_close (2::nat)
        :: int event] = 3
   \<and> next_timer (run test_config initial
        [Call_connect, Ev_close 0, Timer_fires 1, Ev_close 1, Timer_fires 2, Ev_close 2]) - 1 = 2
   \<and> timers (run test_config initial
        [Call_connect, Ev_close 0, Timer_fires 1, Ev_close 1, Timer_fires 2, Ev_close 2]) = []
   \<and> cm_timers ((cm_onclose test_policy test_router (Event_payload JNull) ^^ 3) cm_initial)
        = [(1, 1000), (2, 1000)]
   \<and> cm_calls ((cm_onclose test_policy test_router (Event_payload JNull) ^^ 3) cm_initial)
        = [Commit ''SOCKET_ONCLOSE'' (Event_payload JNull),
           Commit ''SOCKET_RECONNECT'' (Count_payload 1),
           Commit ''SOCKET_ONCLOSE'' (Event_payload JNull),
           Commit ''SOCKET_RECONNECT'' (Count_payload 2),
           Commit ''SOCKET_ONCLOSE'' (Event_payload JNull),
           Commit ''SOCKET_RECONNECT_ERROR'' (Flag_payload True)]"
  using reconnect_attempts_bounded [where c = test_config and s = initial
     and evs = "[Call_connect, Ev_close 0, Timer_fires 1, Ev_close 1, Timer_fires 2, Ev_close 2]"
     and pol = test_policy and m = cm_initial and r = test_router
     and e = "Event_payload JNull" and n = 3]
  by (simp add: step_def handler_defs test_defs cm_defs numeral_3_eq_3 Let_def)

subsection \<open>Cancelling the scheduled reconnect\<close>

text \<open>
  C3 asks that after \<open>disconnect()\<close> no connection attempt occurs without an explicit
  \<open>connect()\<close>.  \<open>disconnect()\<close> clears the timer whose id is in \<open>reconnectTimeoutId\<close>, but
  the close callback overwrites that id without clearing the timer it named, and
  \<open>connect()\<close> leaves a pending timer alone.  In the execution below the first handle
  fails and schedules timer 1, the application calls \<open>connect()\<close> itself, the second
  handle fails and schedules timer 2, and the application calls \<open>disconnect()\<close>: timer 2
  is cleared, timer 1 is still pending with status DISCONNECTED and the explicit-close
  flag set, and when it fires a third handle is constructed.
\<close>

theorem stale_timer_reconnects_after_disconnect:
  "feasible_run test_config initial
      [Call_connect, Ev_close 0, Call_connect, Ev_close 1, Call_disconnect, Timer_fires 1]
   \<and> timers (run test_config initial
        [Call_connect, Ev_close 0, Call_connect, Ev_close 1]) = [(1, 1000), (2, 1000)]
   \<and> reconnectTimeoutId (run test_config initial
        [Call_connect, Ev_close 0, Call_connect, Ev_close 1]) = Some 2
   \<and> timers (run test_config initial
        [Call_connect, Ev_close 0, Call_connect, Ev_close 1, Call_disconnect]) = [(1, 1000)]
   \<and> status (run test_config initial
        [Call_connect, Ev_close 0, Call_connect, Ev_close 1, Call_disconnect]) = DISCONNECTED
   \<and> explicitClose (run test_config initial
        [Call_connect, Ev_close 0, Call_connect, Ev_close 1, Call_disconnect])
   \<and> socks (run test_config initial
        [Call_connect, Ev_close 0, Call_connect, Ev_close 1, Call_disconnect])
       = [RS_CLOSED, RS_CLOSED]
   \<and> socks (run test_config initial
        [Call_connect, Ev_close 0, Call_connect, Ev_close 1, Call_disconnect, Timer_fires 1])
       = [RS_CLOSED, RS_CLOSED, RS_CONNECTING]
   \<and> ws (run test_config initial
        [Call_connect, Ev_close 0, Call_connect, Ev_close 1, Call_disconnect, Timer_fires 1])
       = Some 2
   \<and> status (run test_config initial
        [Call_connect, Ev_close 0, Call_connect, Ev_close 1, Call_disconnect, Timer_fires 1])
       = CONNECTING"
  by (simp add: step_def handler_defs test_defs)

subsection \<open>Sending\<close>

lemma send_not_open:
  assumes "ws_readyState s \<noteq> Some RS_OPEN"
  shows "send c m s = (False, s\<lparr> console := console s @
             [''[useWebSocket] Cannot send - WebSocket is not connected''] \<rparr>)"
  using assms by (simp add: send_def split: option.splits)

lemma send_open:
  assumes "ws_readyState s = Some RS_OPEN"
  shows "\<exists>h. ws s = Some h \<and> send c m s = (True, s\<lparr> sent := sent s @
      [(h, if json c \<and> typeof m = T_object then JStr (JSON_stringify c m) else m)] \<rparr>)"
  using assms by (auto simp: send_def ws_readyState_def split: option.splits)

lemma disconnected_not_open:
  assumes "consistent s" "status s = DISCONNECTED"
  shows "ws_readyState s \<noteq> Some RS_OPEN"
  using assms by (simp add: consistent_def ws_readyState_def)

text \<open>
  C4, as stated, fails: \<open>send\<close> looks at the held handle's \<open>readyState\<close>, not at \<open>status\<close>.
  After an error event on an open connection the status is ERROR, and \<open>send\<close> still
  transmits and returns true.
\<close>

theorem send_while_status_error:
  "feasible_run test_config initial [Call_connect, Ev_open 0, Ev_error 0 (ErrorEvent ''error'')]
   \<and> status (run test_config initial
        [Call_connect, Ev_open 0, Ev_error 0 (ErrorEvent ''error'')]) = ERROR
   \<and> fst (send test_config (JStr ''hi'') (run test_config initial
        [Call_connect, Ev_open 0, Ev_error 0 (ErrorEvent ''error'')])) = True
   \<and> sent (snd (send test_config (JStr ''hi'') (run test_config initial
        [Call_connect, Ev_open 0, Ev_error 0 (ErrorEvent ''error'')]))) = [(0, JStr ''hi'')]"
  by (simp add: step_def handler_defs test_defs)

text \<open>
  C4, amended: \<open>send\<close> returns false, logs a warning and hands nothing to the transport
  whenever no handle is held or the held handle is not OPEN; this is the case in every
  reached state whose status is DISCONNECTED.  When the held handle is OPEN, \<open>send\<close> hands
  the payload to that handle and returns true, whatever the status.
\<close>

theorem send_gated_by_readyState:
  "(ws_readyState s \<noteq> Some RS_OPEN \<longrightarrow>
       send c m s = (False, s\<lparr> console := console s @
             [''[useWebSocket] Cannot send - WebSocket is not connected''] \<rparr>)
     \<and> sent (snd (send c m s)) = sent s)
   \<and> (ws_readyState s = Some RS_OPEN \<longrightarrow>
       (\<exists>h. ws s = Some h \<and> send c m s = (True, s\<lparr> sent := sent s @
          [(h, if json c \<and> typeof m = T_object then JStr (JSON_stringify c m) else m)] \<rparr>)))
   \<and> (status (run c initial evs) = DISCONNECTED \<longrightarrow>
       fst (send c m (run c initial evs)) = False
     \<and> sent (snd (send c m (run c initial evs))) = sent (run c initial evs))"
proof -
  have closed: "ws_readyState s \<noteq> Some RS_OPEN \<longrightarrow>
       send c m s = (False, s\<lparr> console := console s @
             [''[useWebSocket] Cannot send - WebSocket is not connected''] \<rparr>)
     \<and> sent (snd (send c m s)) = sent s"
    by (simp add: send_not_open)
  have opened: "ws_readyState s = Some RS_OPEN \<longrightarrow>
       (\<exists>h. ws s = Some h \<and> send c m s = (True, s\<lparr> sent := sent s @
          [(h, if json c \<and> typeof m = T_object then JStr (JSON_stringify c m) else m)] \<rparr>))"
    using send_open by blast
  have "status (run c initial evs) = DISCONNECTED \<longrightarrow>
      ws_readyState (run c initial evs) \<noteq> Some RS_OPEN"
    using disconnected_not_open [OF consistent_reached] by blast
  then have disconnected: "status (run c initial evs) = DISCONNECTED \<longrightarrow>
       fst (send c m (run c initial evs)) = False
     \<and> sent (snd (send c m (run c initial evs))) = sent (run c initial evs)"
    by (simp add: send_not_open)
  from closed opened disconnected show ?thesis
    by (intro conjI)
qed

theorem send_gated_by_readyState_witness:
  "status (run test_config initial [Call_connect, Ev_open 0, Call_disconnect]) = DISCONNECTED
   \<and> ws_readyState (run test_config initial [Call_connect, Ev_open 0, Call_disconnect])
        \<noteq> Some RS_OPEN
   \<and> fst (send test_config (JStr ''hi'')
        (run test_config initial [Call_connect, Ev_open 0, Call_disconnect])) = False
   \<and> sent (snd (send test_config (JStr ''hi'')
        (run test_config initial [Call_connect, Ev_open 0, Call_disconnect]))) = []
   \<and> ws_readyState (run test_config initial [Call_connect, Ev_open 0]) = Some RS_OPEN
   \<and> send test_config test_message (run test_config initial [Call_connect, Ev_open 0])
       = (True, (run test_config initial [Call_connect, Ev_open 0])
                   \<lparr> sent := [(0, JStr test_text)] \<rparr>)"
  using send_gated_by_readyState [where c = test_config and m = "JStr ''hi''"
      and s = "run test_config initial [Call_connect, Ev_open 0, Call_disconnect]"
      and evs = "[Call_connect, Ev_open 0, Call_disconnect]"]
    send_gated_by_readyState [where c = test_config and m = test_message
      and s = "run test_config initial [Call_connect, Ev_open 0]" and evs = "[]"]
  by (simp add: step_def handler_defs test_defs)

subsection \<open>Handles\<close>

lemma step_socks_length:
  "length (socks s) \<le> length (socks (step c s ev))
   \<and> length (socks (step c s ev)) \<le> length (socks s) + 1"
  by (cases ev) (auto simp: step_def handler_defs Let_def split: option.splits)

lemma connect_open_noop: "ws_readyState s = Some RS_OPEN \<Longrightarrow> connect c s = s"
  by (simp add: connect_def)

lemma connect_not_open:
  assumes "ws_readyState s \<noteq> Some RS_OPEN" "construct_handle c = None"
  shows "socks (connect c s) = socks s @ [RS_CONNECTING] \<and> ws (connect c s) = Some (length (socks s))"
  using assms by (simp add: connect_def set_status_def Let_def)

text \<open>
  C5 asks that at most one transport handle is live at a time, and that \<open>connect()\<close>
  while a handle is still connecting or open creates no second one.  The guard of
  \<open>connect()\<close> returns when the held handle is OPEN (\<open>connect_open_noop\<close>) but not when it
  is still CONNECTING: a second \<open>connect()\<close> then constructs a second handle and drops
  the first without closing it, so both are live.  The dropped handle keeps its
  callbacks, which act on the shared references.  In the second execution below the
  application calls \<open>disconnect()\<close> and then \<open>connect()\<close>; the late close event of the old
  handle clears \<open>ws\<close>, which by then refers to the new handle, and schedules a reconnect;
  the new handle opens unheld, and when the timer fires a further handle is constructed
  beside it.
\<close>

theorem second_live_handle:
  "feasible_run test_config initial [Call_connect, Call_connect]
   \<and> socks (run test_config initial [Call_connect, Call_connect]) = [RS_CONNECTING, RS_CONNECTING]
   \<and> ws (run test_config initial [Call_connect, Call_connect]) = Some 1
   \<and> live_handles (run test_config initial [Call_connect, Call_connect]) = [0, 1]
   \<and> \<not> length (live_handles (run test_config initial [Call_connect, Call_connect])) \<le> 1
   \<and> feasible_run test_config initial
        [Call_connect, Ev_open 0, Call_disconnect, Call_connect, Ev_close 0, Ev_open 1, Timer_fires 1]
   \<and> socks (run test_config initial
        [Call_connect, Ev_open 0, Call_disconnect, Call_connect]) = [RS_CLOSING, RS_CONNECTING]
   \<and> ws (run test_config initial
        [Call_connect, Ev_open 0, Call_disconnect, Call_connect, Ev_close 0, Ev_open 1]) = None
   \<and> status (run test_config initial
        [Call_connect, Ev_open 0, Call_disconnect, Call_connect, Ev_close 0, Ev_open 1]) = CONNECTED
   \<and> socks (run test_config initial
        [Call_connect, Ev_open 0, Call_disconnect, Call_connect, Ev_close 0, Ev_open 1])
       = [RS_CLOSED, RS_OPEN]
   \<and> timers (run test_config initial
        [Call_connect, Ev_open 0, Call_disconnect, Call_connect, Ev_close 0, Ev_open 1])
       = [(1, 1000)]
   \<and> socks (run test_config initial
        [Call_connect, Ev_open 0, Call_disconnect, Call_connect, Ev_close 0, Ev_open 1, Timer_fires 1])
       = [RS_CLOSED, RS_OPEN, RS_CONNECTING]
   \<and> live_handles (run test_config initial
        [Call_connect, Ev_open 0, Call_disconnect, Call_connect, Ev_close 0, Ev_open 1, Timer_fires 1])
       = [1, 2]"
  by (simp add: step_def handler_defs test_defs live_handles_def upt_rec)

subsection \<open>Failures that are values\<close>

lemma never_constructed_step:
  assumes "construct_handle c = Some e" "socks s = []" "timers s = []" "feasible s ev"
  shows "socks (step c s ev) = [] \<and> timers (step c s ev) = []"
  using assms
  by (cases ev) (auto simp: step_def feasible_def handler_defs Let_def split: option.splits)

lemma never_constructed_run:
  assumes "construct_handle c = Some e" "socks s = []" "timers s = []" "feasible_run c s evs"
  shows "socks (run c s evs) = [] \<and> timers (run c s evs) = []"
  using assms
proof (induction evs arbitrary: s)
  case Nil
  then show ?case by simp
next
  case (Cons ev evs)
  then have "socks (step c s ev) = [] \<and> timers (step c s ev) = []"
    using never_constructed_step [of c e s ev] by simp
  with Cons show ?case by simp
qed

text \<open>
  C6: when the construction of the transport handle throws during \<open>connect()\<close>, the
  status becomes ERROR, the exception is recorded in \<open>error\<close>, and \<open>connect()\<close> returns with
  nothing scheduled: the timers, the timer id, the attempt counter, the handles and the
  held handle are as before.  With such an address no handle ever exists, so no close
  event can arrive, and no timer is ever pending in any execution.
\<close>

theorem connect_construction_raises:
  assumes "ws_readyState s \<noteq> Some RS_OPEN" and "construct_handle c = Some e"
  shows "connect c s = s\<lparr> explicitClose := False, error := Some e, status := ERROR,
                           status_log := status_log s @ [CONNECTING, ERROR] \<rparr>
     \<and> status (connect c s) = ERROR \<and> error (connect c s) = Some e
     \<and> timers (connect c s) = timers s \<and> next_timer (connect c s) = next_timer s
     \<and> reconnectTimeoutId (connect c s) = reconnectTimeoutId s
     \<and> reconnectCount (connect c s) = reconnectCount s
     \<and> socks (connect c s) = socks s \<and> ws (connect c s) = ws s
     \<and> (feasible_run c initial evs \<longrightarrow>
           socks (run c initial evs) = [] \<and> timers (run c initial evs) = [])"
proof -
  have never: "feasible_run c initial evs \<longrightarrow>
           socks (run c initial evs) = [] \<and> timers (run c initial evs) = []"
    using never_constructed_run [OF assms(2), of initial evs] by (simp add: initial_def)
  from assms have "connect c s = s\<lparr> explicitClose := False, error := Some e, status := ERROR,
                           status_log := status_log s @ [CONNECTING, ERROR] \<rparr>"
    by (simp add: connect_def set_status_def Let_def)
  with never show ?thesis by simp
qed

theorem connect_construction_raises_witness:
  "ws_readyState (initial :: int uws) \<noteq> Some RS_OPEN
   \<and> construct_handle bad_url_config = Some (Exception ''SyntaxError'')
   \<and> status (connect bad_url_config initial) = ERROR
   \<and> error (connect bad_url_config initial) = Some (Exception ''SyntaxError'')
   \<and> timers (connect bad_url_config initial) = []
   \<and> socks (connect bad_url_config initial) = []
   \<and> feasible_run bad_url_config initial [Call_connect, Call_disconnect, Call_connect]
   \<and> timers (run bad_url_config initial [Call_connect, Call_disconnect, Call_connect]) = []"
  using connect_construction_raises
    [where s = "initial :: int uws" and c = bad_url_config and e = "Exception ''SyntaxError''"
       and evs = "[Call_connect, Call_disconnect, Call_connect]"]
  by (simp add: ws_readyState_def step_def handler_defs test_defs)

text \<open>
  C8: under the \<open>json\<close> option, an inbound text that \<open>JSON.parse\<close> rejects is stored in
  \<open>data\<close> as the raw text; the message callback changes nothing else and returns
  normally.
\<close>

theorem onmessage_invalid_json:
  assumes "json c" and "JSON_parse c d = None"
  shows "onmessage c d s = s\<lparr> data := JStr d \<rparr>
     \<and> step c s (Ev_message h d) = s\<lparr> data := JStr d \<rparr>"
  using assms by (simp add: onmessage_def step_def)

theorem onmessage_invalid_json_witness:
  "json test_config \<and> JSON_parse test_config ''not json'' = None
   \<and> data (onmessage test_config ''not json'' initial) = JStr ''not json''"
  using onmessage_invalid_json [of test_config "''not json''" initial 0]
  by (simp add: test_defs)

subsection \<open>The JSON option\<close>

text \<open>
  C7: under the \<open>json\<close> option, for every structured value \<open>v\<close> (one whose \<open>typeof\<close> is
  \<open>'object'\<close>) that is JSON-representable, that is, that the host's \<open>JSON.parse\<close> gives back
  from the text \<open>JSON.stringify\<close> makes of it, \<open>send\<close> on an open connection transmits
  that text, and the message callback, receiving that text, stores \<open>v\<close> in \<open>data\<close>.
\<close>

theorem json_round_trip:
  assumes "json c" and "typeof v = T_object"
    and "JSON_parse c (JSON_stringify c v) = Some v"
    and "ws s = Some h" and "ws_readyState s = Some RS_OPEN"
  shows "send c v s = (True, s\<lparr> sent := sent s @ [(h, JStr (JSON_stringify c v))] \<rparr>)
     \<and> data (onmessage c (JSON_stringify c v) s') = v
     \<and> data (step c s' (Ev_message h' (JSON_stringify c v))) = v"
  using assms by (simp add: send_def onmessage_def step_def)

theorem json_round_trip_witness:
  "json test_config \<and> typeof test_message = T_object
   \<and> JSON_parse test_config (JSON_stringify test_config test_message) = Some test_message
   \<and> sent (run test_config initial [Call_connect, Ev_open 0, Call_send test_message])
       = [(0, JStr test_text)]
   \<and> data (run test_config initial
        [Call_connect, Ev_open 0, Call_send test_message, Ev_message 0 test_text]) = test_message"
  using json_round_trip [where c = test_config and v = test_message and h = 0 and h' = 0
      and s = "run test_config initial [Call_connect, Ev_open 0]"
      and s' = "run test_config initial [Call_connect, Ev_open 0, Call_send test_message]"]
  by (simp add: step_def handler_defs test_defs)

subsection \<open>Routing to the state sink\<close>

text \<open>
  C9: for every event label that does not begin with \<open>SOCKET_\<close>, every sink, mapping
  and custom handler, and every payload, routing makes no call at all: no commit, no
  dispatch, no named action.
\<close>

theorem route_skips_unprefixed:
  assumes "\<not> startsWith eventLabel ''SOCKET_''"
  shows "route r eventLabel p = []"
  using assms by (simp add: route_def)

theorem route_skips_unprefixed_witness:
  "\<not> startsWith ''OTHER_EVENT'' ''SOCKET_''
   \<and> route test_router ''OTHER_EVENT'' (Event_payload (JObj [(''type'', JStr ''other'')])) = []
   \<and> route test_router ''SOCKET_ONOPEN'' (Event_payload (JObj [(''type'', JStr ''open'')]))
       = [Commit ''SOCKET_ONOPEN'' (Event_payload (JObj [(''type'', JStr ''open'')]))]"
  using route_skips_unprefixed [of "''OTHER_EVENT''" test_router
      "Event_payload (JObj [(''type'', JStr ''other'')])"]
  by (simp add: cm_defs Let_def)

subsection \<open>The error callback\<close>

lemma step_keeps_connected:
  assumes "isConnected s" "\<not> is_close ev" "\<not> is_disconnect ev"
  shows "isConnected (step c s ev)"
  using assms
  by (cases ev) (auto simp: step_def handler_defs Let_def split: option.splits)

lemma run_keeps_connected:
  assumes "isConnected s" "\<forall>ev\<in>set evs. \<not> is_close ev \<and> \<not> is_disconnect ev"
  shows "isConnected (run c s evs)"
  using assms by (induction evs arbitrary: s) (simp_all add: step_keeps_connected)

lemma open_stays_open:
  "h < length rs \<Longrightarrow> rs ! h = RS_OPEN \<Longrightarrow> rs[k := RS_OPEN] ! h = RS_OPEN"
  by (cases "k = h") simp_all

lemma step_keeps_open_handle:
  assumes "ws_readyState s = Some RS_OPEN" "\<not> is_close ev" "\<not> is_disconnect ev"
  shows "ws_readyState (step c s ev) = Some RS_OPEN \<and> ws (step c s ev) = ws s"
  using assms
  by (cases ev)
     (auto simp: step_def handler_defs Let_def open_stays_open split: option.splits if_splits)

lemma run_keeps_open_handle:
  assumes "ws_readyState s = Some RS_OPEN" "\<forall>ev\<in>set evs. \<not> is_close ev \<and> \<not> is_disconnect ev"
  shows "ws_readyState (run c s evs) = Some RS_OPEN \<and> ws (run c s evs) = ws s"
  using assms
proof (induction evs arbitrary: s)
  case Nil
  then show ?case by simp
next
  case (Cons ev evs)
  then have "ws_readyState (step c s ev) = Some RS_OPEN \<and> ws (step c s ev) = ws s"
    using step_keeps_open_handle [of s ev c] by simp
  with Cons show ?case by simp
qed

text \<open>
  C10: a transport error event assigns \<open>error\<close> and sets the status to ERROR, and leaves
  everything else as it was, in particular \<open>isConnected\<close>, the held handle and the attempt
  counter.  After an error event on an open connection, \<open>isConnected\<close> stays true and the
  handle stays held through every later operation until a close event or
  \<open>disconnect()\<close>, each of which clears both; so the status can be other than CONNECTED
  while \<open>isConnected\<close> is true.
\<close>

theorem onerror_frame:
  "onerror event s = s\<lparr> error := Some event, status := ERROR,
                         status_log := status_log s @ [ERROR] \<rparr>
   \<and> step c s (Ev_error h event) = onerror event s
   \<and> isConnected (onerror event s) = isConnected s
   \<and> ws (onerror event s) = ws s
   \<and> reconnectCount (onerror event s) = reconnectCount s
   \<and> (isConnected s \<and> (\<forall>ev\<in>set evs. \<not> is_close ev \<and> \<not> is_disconnect ev) \<longrightarrow>
        isConnected (run c (onerror event s) evs))
   \<and> (ws_readyState s = Some RS_OPEN \<and> (\<forall>ev\<in>set evs. \<not> is_close ev \<and> \<not> is_disconnect ev) \<longrightarrow>
        ws (run c (onerror event s) evs) = ws s)
   \<and> \<not> isConnected (onclose c s) \<and> ws (onclose c s) = None
   \<and> \<not> isConnected (disconnect s) \<and> ws (disconnect s) = None"
proof -
  have frame: "onerror event s = s\<lparr> error := Some event, status := ERROR,
                         status_log := status_log s @ [ERROR] \<rparr>"
    by (simp add: onerror_def set_status_def)
  have ev: "step c s (Ev_error h event) = onerror event s"
    by (simp add: step_def)
  have same: "isConnected (onerror event s) = isConnected s" "ws (onerror event s) = ws s"
    "reconnectCount (onerror event s) = reconnectCount s"
    "ws_readyState (onerror event s) = ws_readyState s"
    by (simp_all add: onerror_def set_status_def ws_readyState_def split: option.splits)
  have stays: "isConnected s \<and> (\<forall>ev\<in>set evs. \<not> is_close ev \<and> \<not> is_disconnect ev) \<longrightarrow>
        isConnected (run c (onerror event s) evs)"
    using run_keeps_connected [of "onerror event s" evs c] same(1) by blast
  have held: "ws_readyState s = Some RS_OPEN \<and> (\<forall>ev\<in>set evs. \<not> is_close ev \<and> \<not> is_disconnect ev) \<longrightarrow>
        ws (run c (onerror event s) evs) = ws s"
    using run_keeps_open_handle [of "onerror event s" evs c] same(2) same(4) by auto
  have ends: "\<not> isConnected (onclose c s) \<and> ws (onclose c s) = None"
    "\<not> isConnected (disconnect s) \<and> ws (disconnect s) = None"
    by (simp_all add: onclose_def disconnect_def set_status_def Let_def split: option.splits)
  from frame ev same(1-3) stays held ends show ?thesis
    by (intro conjI) simp_all
qed

theorem onerror_frame_witness:
  "isConnected (run test_config initial [Call_connect, Ev_open 0])
   \<and> ws_readyState (run test_config initial [Call_connect, Ev_open 0]) = Some RS_OPEN
   \<and> status (run test_config initial
        [Call_connect, Ev_open 0, Ev_error 0 (ErrorEvent ''error'')]) = ERROR
   \<and> isConnected (run test_config initial
        [Call_connect, Ev_open 0, Ev_error 0 (ErrorEvent ''error'')])
   \<and> ws (run test_config initial
        [Call_connect, Ev_open 0, Ev_error 0 (ErrorEvent ''error'')]) = Some 0
   \<and> isConnected (run test_config initial
        [Call_connect, Ev_open 0, Ev_error 0 (ErrorEvent ''error''),
         Call_send (JStr ''hi''), Call_connect])
   \<and> \<not> isConnected (run test_config initial
        [Call_connect, Ev_open 0, Ev_error 0 (ErrorEvent ''error''), Ev_close 0])"
  using onerror_frame [where c = test_config and event = "ErrorEvent ''error''" and h = 0
      and s = "run test_config initial [Call_connect, Ev_open 0]"
      and evs = "[Call_send (JStr ''hi''), Call_connect]"]
  by (simp add: step_def handler_defs test_defs)

end
